theory Spec2Isabelle
  imports Complex_Main
begin

section \<open>Python values and failures\<close>

text \<open>
  Every exception the modelled functions can raise is a constructor of \<open>error\<close>; a
  function that may raise returns \<open>error + 'a\<close>, with \<open>Inl\<close> for the exception.
  The string carried by a constructor is the exception's message (for \<open>KeyError\<close> the
  missing key, for \<open>AttributeError\<close> and \<open>NameError\<close> the missing name).
\<close>

datatype error =
    ValueError string
  | NotImplementedError string
  | KeyError string
  | AttributeError string
  | NameError string
  | IndexError
  | ZeroDivisionError

text \<open>
  Sequencing of statements that may raise: the first exception ends the computation and
  is the result, as an uncaught exception propagates in Python.
\<close>

definition and_then :: "error + 'a \<Rightarrow> ('a \<Rightarrow> error + 'b) \<Rightarrow> error + 'b" where
  "and_then m f = (case m of Inl e \<Rightarrow> Inl e | Inr v \<Rightarrow> f v)"

text \<open>Decimal rendering of an integer, as an f-string \<^verbatim>\<open>f'{time}'\<close> prints it.\<close>

fun str_nat :: "nat \<Rightarrow> string" where
  "str_nat n =
     (if n < 10 then [''0123456789'' ! n]
      else str_nat (n div 10) @ [''0123456789'' ! (n mod 10)])"

definition str_int :: "int \<Rightarrow> string" where
  "str_int i = (if i < 0 then ''-'' @ str_nat (nat (- i)) else str_nat (nat i))"

text \<open>Reading position \<open>i\<close> of a sequence; Python raises \<open>IndexError\<close> past the end.\<close>

definition py_index :: "'a list \<Rightarrow> nat \<Rightarrow> error + 'a" where
  "py_index xs i = (if i < length xs then Inr (xs ! i) else Inl IndexError)"

text \<open>Reading key \<open>k\<close> of a dictionary; Python raises \<open>KeyError\<close> on a missing key.\<close>

definition py_getitem :: "(string \<rightharpoonup> 'v) \<Rightarrow> string \<Rightarrow> error + 'v" where
  "py_getitem m k = (case m k of None \<Rightarrow> Inl (KeyError k) | Some v \<Rightarrow> Inr v)"

section \<open>Vaccination sub-targeting (tests/devtests/test\_variants.py)\<close>

text \<open>
  \<^verbatim>\<open>
  def get_ind_of_min_value(list, time):
      ind = None
      for place, t in enumerate(list):
          if time >= t:
              ind = place
      if ind is None:
          errormsg = f'{time} is not within the list of times'
          raise ValueError(errormsg)
      return ind
  \<close>
  The loop is \<open>scan_places\<close>: \<open>place\<close> is the counter of \<open>enumerate\<close> and \<open>ind\<close> the
  variable the loop body overwrites.
\<close>

fun scan_places :: "int list \<Rightarrow> int \<Rightarrow> nat \<Rightarrow> nat option \<Rightarrow> nat option" where
  "scan_places [] time place ind = ind"
| "scan_places (t # ts) time place ind =
     scan_places ts time (Suc place) (if time \<ge> t then Some place else ind)"

definition get_ind_of_min_value :: "int list \<Rightarrow> int \<Rightarrow> error + nat" where
  "get_ind_of_min_value list time =
     (case scan_places list time 0 None of
        None \<Rightarrow> Inl (ValueError (str_int time @ '' is not within the list of times''))
      | Some ind \<Rightarrow> Inr ind)"

text \<open>
  The simulation object as \<open>vacc_subtarg\<close> reads it: \<open>sim.vxsubtarg.days\<close>,
  \<open>sim.vxsubtarg.age\<close>, \<open>sim.vxsubtarg.prob\<close>, \<open>sim.t\<close>, and the per-person arrays
  \<open>sim.people.age\<close> and \<open>sim.people.vaccinated\<close> (one entry of each per person).
\<close>

record person =
  p_age :: rat
  p_vaccinated :: bool

record vacc_sim =
  vx_days :: "int list"
  vx_age :: "rat list"
  vx_prob :: "rat list"
  vx_t :: int
  vx_people :: "person list"

record subtarget =
  inds :: "nat list"
  vals :: "rat list"

text \<open>\<open>sc.findinds\<close> of a boolean array: the positions that hold \<open>True\<close>.\<close>

definition findinds :: "bool list \<Rightarrow> nat list" where
  "findinds bs = filter (\<lambda>i. bs ! i) [0..<length bs]"

text \<open>
  \<^verbatim>\<open>
  def vacc_subtarg(sim):
      ind = get_ind_of_min_value(sim.vxsubtarg.days, sim.t)
      age = sim.vxsubtarg.age[ind]
      prob = sim.vxsubtarg.prob[ind]
      inds = sc.findinds((sim.people.age>=age) * ~sim.people.vaccinated)
      vals = prob*np.ones(len(inds))
      return {'inds':inds, 'vals':vals}
  \<close>
\<close>

definition vacc_subtarg :: "vacc_sim \<Rightarrow> error + subtarget" where
  "vacc_subtarg sim =
     and_then (get_ind_of_min_value (vx_days sim) (vx_t sim)) (\<lambda>ind.
     and_then (py_index (vx_age sim) ind) (\<lambda>age.
     and_then (py_index (vx_prob sim) ind) (\<lambda>prob.
       let inds = findinds (map (\<lambda>p. p_age p \<ge> age \<and> \<not> p_vaccinated p) (vx_people sim));
           vals = map (\<lambda>one. prob * one) (replicate (length inds) 1)
       in Inr \<lparr>inds = inds, vals = vals\<rparr>)))"


section \<open>Data read by the plotting layer (covasim/plotting.py)\<close>

text \<open>
  Keyword-argument dictionaries hold Python values; \<open>truthy\<close> is Python's truth test,
  used wherever the source writes \<^verbatim>\<open>if x:\<close> on such a value.
\<close>

datatype pyval =
    PyNone
  | PyBool bool
  | PyInt int
  | PyNum rat
  | PyStr string
  | PyTuple "pyval list"

fun truthy :: "pyval \<Rightarrow> bool" where
  "truthy PyNone = False"
| "truthy (PyBool b) = b"
| "truthy (PyInt i) = (i \<noteq> 0)"
| "truthy (PyNum r) = (r \<noteq> 0)"
| "truthy (PyStr s) = (s \<noteq> [])"
| "truthy (PyTuple vs) = (vs \<noteq> [])"

type_synonym kwargs = "string \<rightharpoonup> pyval"
type_synonym series = "rat list"
type_synonym color = pyval

text \<open>
  The panels to plot: an ordered dictionary from panel title to the result keys drawn in
  that panel, in the order the panels are drawn.
\<close>

type_synonym plots = "(string \<times> string list) list"


text \<open>
  An entry of \<open>sim.results\<close>: a result object (name, colour, values, optional low and
  high bounds) or a bare array such as \<open>sim.results['t']\<close>. Reading an attribute of a
  bare array raises \<open>AttributeError\<close>.
\<close>

record result =
  res_name :: string
  res_color :: color
  res_values :: series
  res_low :: "series option"
  res_high :: "series option"

datatype resval = Result result | Array series

text \<open>
  An intervention as the plotting layer reads it: \<open>days\<close> is \<open>None\<close> when the object has
  no \<open>days\<close> attribute (\<^verbatim>\<open>hasattr(interv, 'days')\<close> is false).
\<close>

record intervention =
  days :: "int list option"
  do_plot :: bool

text \<open>
  The data frame \<open>sim.data\<close>: its index (the day of each row) and its columns.
\<close>

record dataframe =
  df_index :: "int list"
  df_columns :: "string \<rightharpoonup> series"

text \<open>
  The dates \<open>get_individual_states\<close> reads from \<open>sim.people\<close>, for one person;
  \<open>None\<close> stands for NaN (the event did not happen).
\<close>

record person_dates =
  date_exposed :: "int option"
  date_infectious :: "int option"
  date_recovered :: "int option"
  date_dead :: "int option"

record sim =
  sim_results :: "string \<rightharpoonup> resval"
  sim_data :: "dataframe option"
  sim_start_day :: int
  sim_n_days :: int
  sim_interventions :: "intervention list"
  sim_people :: "person_dates list"
  sim_npts :: nat
  sim_n :: nat



text \<open>
  Pure functions the plotting layer calls but does not define, taken as parameters:
  \<open>cvd.get_sim_plots()\<close> and \<open>cvd.get_scen_plots()\<close> of \<open>covasim.defaults\<close> (the
  default panels), \<open>sc.gridcolors\<close> (a list of colours for a requested count) and
  \<open>sc.makefilepath\<close> (the path a file name resolves to).
\<close>

record env =
  get_sim_plots :: plots
  get_scen_plots :: plots
  gridcolors :: "nat \<Rightarrow> color list"
  makefilepath :: "string \<Rightarrow> string"

section \<open>The charting library as a state\<close>

text \<open>
  A figure handle is the position of the figure among the figures created so far; an
  axes handle names its figure and its label.
\<close>

type_synonym figure = nat

datatype axes = Axes figure string

text \<open>
  The calls into pyplot and the axes objects, with the arguments the source passes.
\<close>

datatype call =
    Figure kwargs
  | Subplots_adjust kwargs
  | Rc_param string pyval
  | Subplot int int nat "axes option" string
  | Set_yscale axes string
  | Fill_between axes resval series series color kwargs
  | Plot axes resval series string color kwargs
  | Scatter "int list" series color kwargs
  | Scatter_legend color string kwargs
  | Intervention_plot intervention axes
  | Legend axes kwargs
  | Set_title axes string
  | Grid axes bool
  | Set_ylim_bottom axes int
  | Commaticks
  | Set_xticks axes rat rat rat
  | Set_major_formatter axes int
  | Set_major_locator axes
  | Savefig string
  | Show_figures
  | Close "figure option"

text \<open>
  The library's state: the log of calls made so far (oldest first), the axes labels of
  every figure created so far, pyplot's registry of open figures (the last one is the
  current figure), and the axis limits the library reports for an axes. The limits come
  from the library's autoscaling, which is not modelled: they are inputs.
\<close>

record world =
  calls :: "call list"
  figures :: "string list list"
  open_figs :: "figure list"
  xlim :: "axes \<Rightarrow> rat \<times> rat"
  ylim :: "axes \<Rightarrow> rat \<times> rat"

definition log_call :: "call \<Rightarrow> world \<Rightarrow> world" where
  "log_call c w = w\<lparr>calls := calls w @ [c]\<rparr>"










section \<open>Plotting helper functions\<close>

record args =
  args_fig :: kwargs
  args_plot :: kwargs
  args_scatter :: kwargs
  args_axis :: kwargs
  args_fill :: kwargs
  args_legend :: kwargs


text \<open>
  Python's true division of two integers raises on a zero divisor. Its result is a float;
  the model keeps the exact quotient, which has the same ceiling as the float for
  operands that a double holds exactly. \<open>dquote\<close> is the double quote character.
\<close>

definition py_truediv :: "int \<Rightarrow> int \<Rightarrow> error + rat" where
  "py_truediv a b = (if b = 0 then Inl ZeroDivisionError else Inr (of_int a / of_int b))"

definition dquote :: string where
  "dquote = [CHR 0x22]"

text \<open>
  \<^verbatim>\<open>
  def handle_to_plot(which, to_plot, n_cols):
      if to_plot is None:
          if which == 'sim':
              to_plot = cvd.get_sim_plots()
          elif which =='scens':
              to_plot = cvd.get_scen_plots()
          else:
              errormsg = f'"which" must be "sim" or "scens", not "{which}"'
              raise NotImplementedError(errormsg)
      to_plot = sc.odict(sc.dcp(to_plot)) # In case it's supplied as a dict
      n_rows = np.ceil(len(to_plot)/n_cols) # Number of subplot rows to have
      return to_plot, n_rows
  \<close>
  The deep copy and the conversion to an ordered dictionary keep the entries and their
  order, so the model returns the panels as they are.
\<close>

definition which_errormsg :: "string \<Rightarrow> string" where
  "which_errormsg which =
     dquote @ ''which'' @ dquote @ '' must be '' @ dquote @ ''sim'' @ dquote @ '' or '' @
     dquote @ ''scens'' @ dquote @ '', not '' @ dquote @ which @ dquote"

definition handle_to_plot :: "env \<Rightarrow> string \<Rightarrow> plots option \<Rightarrow> int \<Rightarrow> error + plots \<times> int" where
  "handle_to_plot cvd which to_plot n_cols =
     and_then
       (case to_plot of
          None \<Rightarrow>
            if which = ''sim'' then Inr (get_sim_plots cvd)
            else if which = ''scens'' then Inr (get_scen_plots cvd)
            else Inl (NotImplementedError (which_errormsg which))
        | Some given \<Rightarrow> Inr given)
       (\<lambda>to_plot.
     and_then (py_truediv (int (length to_plot)) n_cols) (\<lambda>quotient.
       Inr (to_plot, \<lceil>quotient\<rceil>)))"





text \<open>Reading an attribute of an entry of \<open>sim.results\<close>.\<close>

definition get_attr :: "string \<Rightarrow> (result \<Rightarrow> 'a) \<Rightarrow> resval \<Rightarrow> error + 'a" where
  "get_attr attr field v =
     (case v of Result r \<Rightarrow> Inr (field r) | Array a \<Rightarrow> Inl (AttributeError attr))"


text \<open>
  \<^verbatim>\<open>
  def plot_interventions(sim, ax):
      for intervention in sim['interventions']:
          intervention.plot(sim, ax)
      return
  \<close>
\<close>

definition plot_interventions :: "sim \<Rightarrow> axes \<Rightarrow> world \<Rightarrow> world" where
  "plot_interventions sim ax w =
     fold (\<lambda>intervention. log_call (Intervention_plot intervention ax)) (sim_interventions sim) w"

text \<open>
  \<^verbatim>\<open>
  def title_grid_legend(ax, title, grid, commaticks, setylim, legend_args, show_legend=True):
      if 'show_legend' in legend_args:
          show_legend = legend_args.pop('show_legend')
          popped = True
      else:
          popped = False
      if show_legend:
          ax.legend(**legend_args)
      if popped:
          legend_args['show_legend'] = show_legend
      ax.set_title(title)
      ax.grid(grid)
      if setylim:
          ax.set_ylim(bottom=0)
      if commaticks:
          ylims = ax.get_ylim()
          if ylims[1] >= 1000:
              sc.commaticks()
      return
  \<close>
  The dictionary \<open>legend_args\<close> is the caller's object and the function mutates it, so
  the model returns the dictionary as it is when the function returns.
\<close>

definition title_grid_legend ::
  "axes \<Rightarrow> string \<Rightarrow> bool \<Rightarrow> bool \<Rightarrow> bool \<Rightarrow> kwargs \<Rightarrow> pyval \<Rightarrow> world \<Rightarrow> kwargs \<times> world" where
  "title_grid_legend ax title grid commaticks setylim legend_args show_legend w =
     (let (show_legend, popped, legend_args) =
            (case legend_args ''show_legend'' of
               Some v \<Rightarrow> (v, True, legend_args(''show_legend'' := None))
             | None \<Rightarrow> (show_legend, False, legend_args));
          w = (if truthy show_legend then log_call (Legend ax legend_args) w else w);
          legend_args = (if popped then legend_args(''show_legend'' \<mapsto> show_legend)
                         else legend_args);
          w = log_call (Set_title ax title) w;
          w = log_call (Grid ax grid) w;
          w = (if setylim
               then (log_call (Set_ylim_bottom ax 0) w)\<lparr>ylim := (ylim w)(ax := (0, snd (ylim w ax)))\<rparr>
               else w);
          w = (if commaticks then (if snd (ylim w ax) \<ge> 1000 then log_call Commaticks w else w)
               else w)
      in (legend_args, w))"

text \<open>
  \<^verbatim>\<open>
  def reset_ticks(ax, sim, interval, as_dates):
      if interval:
          xmin,xmax = ax.get_xlim()
          ax.set_xticks(pl.arange(xmin, xmax+1, interval))
      if as_dates:
          @ticker.FuncFormatter
          def date_formatter(x, pos):
              return (sim['start_day'] + dt.timedelta(days=x)).strftime('%b-%d')
          ax.xaxis.set_major_formatter(date_formatter)
          if not interval:
              ax.xaxis.set_major_locator(ticker.MaxNLocator(integer=True))
      return
  \<close>
  \<open>interval\<close> is \<open>None\<close> or a number; both \<open>None\<close> and zero are false.
\<close>

definition reset_ticks :: "axes \<Rightarrow> sim \<Rightarrow> rat option \<Rightarrow> bool \<Rightarrow> world \<Rightarrow> world" where
  "reset_ticks ax sim interval as_dates w =
     (let has_interval = (case interval of None \<Rightarrow> False | Some step \<Rightarrow> step \<noteq> 0);
          w = (case interval of
                 None \<Rightarrow> w
               | Some step \<Rightarrow>
                   if step \<noteq> 0
                   then (let (xmin, xmax) = xlim w ax
                         in log_call (Set_xticks ax xmin (xmax + 1) step) w)
                   else w);
          w = (if as_dates
               then (let w = log_call (Set_major_formatter ax (sim_start_day sim)) w
                     in if \<not> has_interval then log_call (Set_major_locator ax) w else w)
               else w)
      in w)"



section \<open>Core plotting functions\<close>











section \<open>Transmission tree\<close>

text \<open>
  An entry of the detailed transmission tree, with the fields \<open>plot_transtree\<close> reads;
  the list \<open>self.detailed\<close> holds \<open>None\<close> for a person who was never infected.
\<close>

record tt_entry =
  tt_source :: "int option"
  tt_date :: int
  tt_layer :: string
  tt_s_asymp :: bool
  tt_s_presymp :: bool
  tt_s_sev :: bool
  tt_s_crit :: bool
  tt_s_diag :: bool
  tt_s_quar :: bool
  tt_t_quar :: bool

record transtree =
  detailed :: "tt_entry option list option"

text \<open>
  \<^verbatim>\<open>
  def plot_transtree(self, *args, **kwargs):
      if self.detailed is None:
          errormsg = 'Please run sim.people.make_detailed_transtree() before calling plotting'
          raise ValueError(errormsg)
      ttlist = []
      for entry in self.detailed:
          if entry and entry.source:
              tdict = {'date': entry.date, 'layer': entry.layer, ...}
              ttlist.append(tdict)
      df = pd.DataFrame(ttlist).rename(columns={'date': 'Day'})
      ...
      return fig
  \<close>
  The module imports \<open>np\<close>, \<open>pl\<close>, \<open>sc\<close>, \<open>dt\<close>, \<open>ticker\<close>, \<open>go\<close> and \<open>cvd\<close> and never
  binds the name \<open>pd\<close>, so the statement that builds the data frame raises
  \<open>NameError\<close>; the statements after it are not reached. \<open>entry.source\<close> is false
  when it is \<open>None\<close> or zero.
\<close>

definition transtree_rows :: "tt_entry option list \<Rightarrow> tt_entry list" where
  "transtree_rows entries =
     concat (map (\<lambda>entry. case entry of
                             None \<Rightarrow> []
                           | Some e \<Rightarrow>
                               (case tt_source e of
                                  None \<Rightarrow> []
                                | Some source \<Rightarrow> if source \<noteq> 0 then [e] else []))
                 entries)"

definition plot_transtree :: "transtree \<Rightarrow> error + figure" where
  "plot_transtree self =
     (case detailed self of
        None \<Rightarrow>
          Inl (ValueError
                 ''Please run sim.people.make_detailed_transtree() before calling plotting'')
      | Some entries \<Rightarrow>
          (let ttlist = transtree_rows entries
           in Inl (NameError ''pd'')))"

section \<open>Plotly functions\<close>

text \<open>
  A Plotly figure as the functions below build it: its traces, the shapes added with
  \<open>add_shape\<close> (a vertical line is given by its \<open>x0\<close> and \<open>x1\<close>), the annotations set
  with \<open>update_layout\<close> (position and text), and the layout entries the functions set.
\<close>

record trace =
  tr_x :: series
  tr_y :: series
  tr_mode :: "string option"
  tr_name :: string
  tr_color :: color
  tr_stackgroup :: "string option"

datatype shape = Line_shape int int

datatype annotation = Annotation int string

record plotly_figure =
  pf_traces :: "trace list"
  pf_shapes :: "shape list"
  pf_annotations :: "annotation list"
  pf_title :: "string option"
  pf_yaxis_title :: "string option"
  pf_yaxis_range :: "(nat \<times> nat) option"
  pf_shown :: bool

definition go_Figure :: plotly_figure where
  "go_Figure = \<lparr>pf_traces = [], pf_shapes = [], pf_annotations = [], pf_title = None,
                pf_yaxis_title = None, pf_yaxis_range = None, pf_shown = False\<rparr>"

definition add_trace :: "trace \<Rightarrow> plotly_figure \<Rightarrow> plotly_figure" where
  "add_trace t fig = fig\<lparr>pf_traces := pf_traces fig @ [t]\<rparr>"

text \<open>
  The body both Plotly functions run for one intervention day:
  \<^verbatim>\<open>
  if interv_day > 0 and interv_day < sim['n_days']:
      fig.add_shape(dict(type="line", xref="x", yref="paper", x0=interv_day, x1=interv_day,
                         y0=0, y1=1, name='Intervention', line=dict(width=0.5, dash='dash')))
      fig.update_layout(annotations=[dict(x=interv_day, y=1.07, xref="x", yref="paper",
                                          text="Intervention change", showarrow=False)])
  \<close>
\<close>

definition mark_day :: "sim \<Rightarrow> int \<Rightarrow> plotly_figure \<Rightarrow> plotly_figure" where
  "mark_day sim interv_day fig =
     (if interv_day > 0 \<and> interv_day < sim_n_days sim
      then fig\<lparr>pf_shapes := pf_shapes fig @ [Line_shape interv_day interv_day],
               pf_annotations := [Annotation interv_day ''Intervention change'']\<rparr>
      else fig)"

text \<open>\<open>x[:]\<close> of an entry of \<open>sim.results\<close>: the values of a result, the array itself.\<close>

definition slice_all :: "resval \<Rightarrow> series" where
  "slice_all v = (case v of Result r \<Rightarrow> res_values r | Array a \<Rightarrow> a)"

text \<open>
  \<^verbatim>\<open>
  def plotly_sim(sim):
      plots = []
      to_plot = cvd.get_sim_plots()
      for p,title,keylabels in to_plot.enumitems():
          fig = go.Figure()
          for key in keylabels:
              label = sim.results[key].name
              this_color = sim.results[key].color
              x = sim.results['date'][:]
              y = sim.results[key][:]
              fig.add_trace(go.Scatter(x=x, y=y, mode='lines', name=label, line_color=this_color))
              if sim.data is not None and key in sim.data:
                  xdata = sim.data['date']
                  ydata = sim.data[key]
                  fig.add_trace(go.Scatter(x=xdata, y=ydata, mode='markers',
                                           name=label + ' (data)', line_color=this_color))
          if sim['interventions']:
              for interv in sim['interventions']:
                  if hasattr(interv, 'days'):
                      for interv_day in interv.days:
                          if interv_day > 0 and interv_day < sim['n_days']:
                              fig.add_shape(...)
                              fig.update_layout(annotations=[...])
          fig.update_layout(title={'text':title}, yaxis_title='Count', autosize=True,
                            **plotly_legend)
          plots.append(fig)
      return plots
  \<close>
\<close>

fun plotly_sim_keys :: "sim \<Rightarrow> string list \<Rightarrow> plotly_figure \<Rightarrow> error + plotly_figure" where
  "plotly_sim_keys sim [] fig = Inr fig"
| "plotly_sim_keys sim (key # rest) fig =
     and_then (py_getitem (sim_results sim) key) (\<lambda>res.
     and_then (get_attr ''name'' res_name res) (\<lambda>label.
     and_then (get_attr ''color'' res_color res) (\<lambda>this_color.
     and_then (py_getitem (sim_results sim) ''date'') (\<lambda>dates.
       let x = slice_all dates;
           y = slice_all res;
           fig = add_trace \<lparr>tr_x = x, tr_y = y, tr_mode = Some ''lines'', tr_name = label,
                            tr_color = this_color, tr_stackgroup = None\<rparr> fig
       in and_then
            (case sim_data sim of
               None \<Rightarrow> Inr fig
             | Some df \<Rightarrow>
                 (case df_columns df key of
                    None \<Rightarrow> Inr fig
                  | Some ydata \<Rightarrow>
                      and_then (py_getitem (df_columns df) ''date'') (\<lambda>xdata.
                        Inr (add_trace \<lparr>tr_x = xdata, tr_y = ydata, tr_mode = Some ''markers'',
                                        tr_name = label @ '' (data)'', tr_color = this_color,
                                        tr_stackgroup = None\<rparr> fig))))
            (\<lambda>fig. plotly_sim_keys sim rest fig)))))"

definition plotly_sim_interventions :: "sim \<Rightarrow> plotly_figure \<Rightarrow> plotly_figure" where
  "plotly_sim_interventions sim fig =
     (if sim_interventions sim \<noteq> []
      then fold (\<lambda>interv fig.
                   case days interv of
                     None \<Rightarrow> fig
                   | Some interv_days \<Rightarrow> fold (mark_day sim) interv_days fig)
             (sim_interventions sim) fig
      else fig)"

fun plotly_sim_panels :: "sim \<Rightarrow> plots \<Rightarrow> plotly_figure list \<Rightarrow> error + plotly_figure list" where
  "plotly_sim_panels sim [] plots = Inr plots"
| "plotly_sim_panels sim ((title, keylabels) # rest) plots =
     and_then (plotly_sim_keys sim keylabels go_Figure) (\<lambda>fig.
       let fig = plotly_sim_interventions sim fig;
           fig = fig\<lparr>pf_title := Some title, pf_yaxis_title := Some ''Count''\<rparr>
       in plotly_sim_panels sim rest (plots @ [fig]))"

definition plotly_sim :: "env \<Rightarrow> sim \<Rightarrow> error + plotly_figure list" where
  "plotly_sim cvd sim = plotly_sim_panels sim (get_sim_plots cvd) []"

text \<open>
  \<^verbatim>\<open>
  def get_individual_states(sim):
      people = sim.people
      states = [
          {'name': 'Healthy', 'quantity': None, 'color': '#a6cee3', 'value': 0},
          {'name': 'Exposed', 'quantity': 'date_exposed', 'color': '#ff7f00', 'value': 2},
          {'name': 'Infectious', 'quantity': 'date_infectious', 'color': '#e33d3e', 'value': 3},
          {'name': 'Recovered', 'quantity': 'date_recovered', 'color': '#3e89bc', 'value': 4},
          {'name': 'Dead', 'quantity': 'date_dead', 'color': '#000000', 'value': 5},
      ]
      z = np.zeros((len(people), sim.npts))
      for state in states:
          date = state['quantity']
          if date is not None:
              inds = sim.people.defined(date)
              for ind in inds:
                  z[ind, int(people[date][ind]):] = state['value']
      return z, states
  \<close>
  A state's \<open>quantity\<close> is modelled by the field of \<open>person_dates\<close> it names.
  \<open>assign_from\<close> is the slice assignment \<open>row[start:] = value\<close>, where a negative
  start counts from the end of the row.
\<close>

record state =
  st_name :: string
  st_quantity :: "(person_dates \<Rightarrow> int option) option"
  st_color :: string
  st_value :: nat

definition states :: "state list" where
  "states =
     [\<lparr>st_name = ''Healthy'', st_quantity = None, st_color = ''#a6cee3'', st_value = 0\<rparr>,
      \<lparr>st_name = ''Exposed'', st_quantity = Some date_exposed, st_color = ''#ff7f00'',
       st_value = 2\<rparr>,
      \<lparr>st_name = ''Infectious'', st_quantity = Some date_infectious, st_color = ''#e33d3e'',
       st_value = 3\<rparr>,
      \<lparr>st_name = ''Recovered'', st_quantity = Some date_recovered, st_color = ''#3e89bc'',
       st_value = 4\<rparr>,
      \<lparr>st_name = ''Dead'', st_quantity = Some date_dead, st_color = ''#000000'', st_value = 5\<rparr>]"

definition assign_from :: "int \<Rightarrow> nat \<Rightarrow> nat list \<Rightarrow> nat list" where
  "assign_from start v row =
     (let n = length row;
          first = (if start < 0 then nat (max 0 (int n + start)) else min (nat start) n)
      in take first row @ replicate (n - first) v)"

definition get_individual_states :: "sim \<Rightarrow> nat list list \<times> state list" where
  "get_individual_states sim =
     (let people = sim_people sim;
          z = replicate (length people) (replicate (sim_npts sim) 0);
          z = fold (\<lambda>state z.
                      case st_quantity state of
                        None \<Rightarrow> z
                      | Some date \<Rightarrow>
                          (let inds = filter (\<lambda>i. date (people ! i) \<noteq> None) [0..<length people]
                           in fold (\<lambda>ind z.
                                      case date (people ! ind) of
                                        None \<Rightarrow> z
                                      | Some d \<Rightarrow> z[ind := assign_from d (st_value state) (z ! ind)])
                                inds z))
                states z
      in (z, states))"

text \<open>
  \<^verbatim>\<open>
  def plotly_people(sim, do_show=False):
      z, states = get_individual_states(sim)
      fig = go.Figure()
      for state in states[::-1]:  # Reverse order for plotting
          x = sim.results['date'][:]
          y = (z == state['value']).sum(axis=0)
          fig.add_trace(go.Scatter(x=x, y=y, stackgroup='one',
              line=dict(width=0.5, color=state['color']), fillcolor=state['color'],
              hoverinfo="y+name", name=state['name']))
      if sim['interventions']:
          for interv in sim['interventions']:
                  if hasattr(interv, 'days'):
                      if interv.do_plot:
                          for interv_day in interv.days:
                              if interv_day > 0 and interv_day < sim['n_days']:
                                  fig.add_shape(...)
                                  fig.update_layout(annotations=[...])
      fig.update_layout(yaxis_range=(0, sim.n))
      fig.update_layout(title={'text': 'Numbers of people by health state'},
                        yaxis_title='People', autosize=True, **plotly_legend)
      if do_show:
          fig.show()
      return fig
  \<close>
\<close>

definition count_state :: "nat list list \<Rightarrow> nat \<Rightarrow> nat \<Rightarrow> series" where
  "count_state z npts v =
     map (\<lambda>day. of_nat (length (filter (\<lambda>row. row ! day = v) z))) [0..<npts]"

fun plotly_people_states ::
  "sim \<Rightarrow> nat list list \<Rightarrow> state list \<Rightarrow> plotly_figure \<Rightarrow> error + plotly_figure" where
  "plotly_people_states sim z [] fig = Inr fig"
| "plotly_people_states sim z (state # rest) fig =
     and_then (py_getitem (sim_results sim) ''date'') (\<lambda>dates.
       let x = slice_all dates;
           y = count_state z (sim_npts sim) (st_value state)
       in plotly_people_states sim z rest
            (add_trace \<lparr>tr_x = x, tr_y = y, tr_mode = None, tr_name = st_name state,
                        tr_color = PyStr (st_color state), tr_stackgroup = Some ''one''\<rparr> fig))"

definition plotly_people_interventions :: "sim \<Rightarrow> plotly_figure \<Rightarrow> plotly_figure" where
  "plotly_people_interventions sim fig =
     (if sim_interventions sim \<noteq> []
      then fold (\<lambda>interv fig.
                   case days interv of
                     None \<Rightarrow> fig
                   | Some interv_days \<Rightarrow>
                       if do_plot interv then fold (mark_day sim) interv_days fig else fig)
             (sim_interventions sim) fig
      else fig)"

definition plotly_people :: "sim \<Rightarrow> bool \<Rightarrow> error + plotly_figure" where
  "plotly_people sim do_show =
     (let (z, states) = get_individual_states sim
      in and_then (plotly_people_states sim z (rev states) go_Figure) (\<lambda>fig.
           let fig = plotly_people_interventions sim fig;
               fig = fig\<lparr>pf_yaxis_range := Some (0, sim_n sim)\<rparr>;
               fig = fig\<lparr>pf_title := Some ''Numbers of people by health state'',
                         pf_yaxis_title := Some ''People''\<rparr>;
               fig = (if do_show then fig\<lparr>pf_shown := True\<rparr> else fig)
           in Inr fig))"

section \<open>Observations and completion conditions\<close>

text \<open>The paths handed to \<open>pl.savefig\<close> so far, oldest first.\<close>

fun saved_path :: "call \<Rightarrow> string list" where
  "saved_path (Savefig path) = [path]"
| "saved_path other = []"

definition saved_paths :: "world \<Rightarrow> string list" where
  "saved_paths w = concat (map saved_path (calls w))"







section \<open>Example inputs\<close>

text \<open>
  A small configuration, simulation and library state, used to run the functions above on
  concrete inputs.
\<close>

definition example_cvd :: env where
  "example_cvd =
     \<lparr>get_sim_plots = [(''Total counts'', [''cum_infections''])],
      get_scen_plots = [(''Cumulative infections'', [''cum_infections''])],
      gridcolors = (\<lambda>n. replicate n (PyStr ''#000000'')),
      makefilepath = (\<lambda>path. ''/tmp/'' @ path)\<rparr>"

definition example_sim :: sim where
  "example_sim =
     \<lparr>sim_results =
        [''cum_infections'' \<mapsto> Result \<lparr>res_name = ''Cumulative infections'',
                                          res_color = PyStr ''#e45226'', res_values = [1, 3, 4],
                                          res_low = None, res_high = None\<rparr>,
         ''t'' \<mapsto> Array [0, 1, 2],
         ''date'' \<mapsto> Array [0, 1, 2]],
      sim_data = None,
      sim_start_day = 0,
      sim_n_days = 30,
      sim_interventions = [\<lparr>days = Some [0, 10, 30], do_plot = False\<rparr>,
                           \<lparr>days = Some [20], do_plot = True\<rparr>,
                           \<lparr>days = None, do_plot = True\<rparr>],
      sim_people = [\<lparr>date_exposed = Some 0, date_infectious = Some 1, date_recovered = None,
                      date_dead = None\<rparr>,
                    \<lparr>date_exposed = None, date_infectious = None, date_recovered = None,
                      date_dead = None\<rparr>],
      sim_npts = 3,
      sim_n = 2\<rparr>"


definition example_world :: world where
  "example_world = \<lparr>calls = [], figures = [], open_figs = [], xlim = (\<lambda>ax. (0, 2)),
                    ylim = (\<lambda>ax. (0, 5))\<rparr>"

section \<open>Properties of the sub-targeting lookup\<close>

lemma scan_places_None:
  "scan_places ts time place ind = None \<longleftrightarrow> ind = None \<and> (\<forall>t\<in>set ts. time < t)"
  by (induction ts arbitrary: place ind) auto

lemma scan_places_Some:
  "scan_places ts time place ind = Some i \<Longrightarrow>
     (ind = Some i \<and> (\<forall>t\<in>set ts. time < t)) \<or>
     (place \<le> i \<and> i - place < length ts \<and> ts ! (i - place) \<le> time \<and>
      (\<forall>j. i - place < j \<and> j < length ts \<longrightarrow> time < ts ! j))"
proof (induction ts arbitrary: place ind)
  case Nil
  then show ?case by simp
next
  case (Cons t ts)
  from Cons.prems
  have run: "scan_places ts time (Suc place) (if time \<ge> t then Some place else ind) = Some i"
    by simp
  from Cons.IH [OF run] show ?case
  proof
    assume a: "(if t \<le> time then Some place else ind) = Some i \<and> (\<forall>t\<in>set ts. time < t)"
    show ?thesis
    proof (cases "t \<le> time")
      case True
      with a have "i = place" by simp
      moreover have "\<forall>j. 0 < j \<and> j < length (t # ts) \<longrightarrow> time < (t # ts) ! j"
        using a by (auto simp: nth_Cons split: nat.splits)
      ultimately show ?thesis using True by simp
    next
      case False
      with a show ?thesis by auto
    qed
  next
    assume b: "Suc place \<le> i \<and> i - Suc place < length ts \<and> ts ! (i - Suc place) \<le> time \<and>
      (\<forall>j. i - Suc place < j \<and> j < length ts \<longrightarrow> time < ts ! j)"
    then have eq: "i - place = Suc (i - Suc place)" by arith
    have "\<forall>j. i - place < j \<and> j < length (t # ts) \<longrightarrow> time < (t # ts) ! j"
    proof (intro allI impI)
      fix j assume j: "i - place < j \<and> j < length (t # ts)"
      then obtain j' where j': "j = Suc j'" by (cases j) auto
      with j eq b show "time < (t # ts) ! j" by simp
    qed
    with b eq show ?thesis by simp
  qed
qed

lemma get_ind_latest:
  assumes "\<exists>t\<in>set list. t \<le> time"
  shows "\<exists>i. get_ind_of_min_value list time = Inr i \<and> i < length list \<and> list ! i \<le> time \<and>
             (\<forall>j. i < j \<and> j < length list \<longrightarrow> time < list ! j)"
proof -
  from assms obtain t where "t \<in> set list" "t \<le> time" by blast
  then have "\<not> (\<forall>t\<in>set list. time < t)" by force
  then have "scan_places list time 0 None \<noteq> None"
    by (simp add: scan_places_None)
  then obtain i where i: "scan_places list time 0 None = Some i" by auto
  from scan_places_Some [OF i] show ?thesis
    using i by (auto simp: get_ind_of_min_value_def)
qed

lemma findinds_people:
  "findinds (map (\<lambda>p. a \<le> p_age p \<and> \<not> p_vaccinated p) people) =
     filter (\<lambda>k. a \<le> p_age (people ! k) \<and> \<not> p_vaccinated (people ! k)) [0..<length people]"
  unfolding findinds_def by (rule filter_cong) auto

text \<open>
  C1. Whenever some threshold of the list does not exceed the time,
  \<open>get_ind_of_min_value\<close> returns the last position of the list whose value is at most
  the time: the position is in range, its threshold does not exceed the time, and every
  later threshold does. \<open>vacc_subtarg\<close>, run on a simulation with these thresholds and
  this time, reads the age and the probability at that same position: it targets the
  unvaccinated people of at least that age, each with that probability (and raises
  \<open>IndexError\<close> when the age or probability list has no such position).
\<close>

theorem get_ind_of_min_value_latest:
  assumes "\<exists>t\<in>set list. t \<le> time"
  shows "\<exists>i. get_ind_of_min_value list time = Inr i \<and>
             i < length list \<and> list ! i \<le> time \<and>
             (\<forall>j. i < j \<and> j < length list \<longrightarrow> time < list ! j) \<and>
             (\<forall>ages probs people.
                vacc_subtarg \<lparr>vx_days = list, vx_age = ages, vx_prob = probs, vx_t = time,
                              vx_people = people\<rparr> =
                  (if i < length ages \<and> i < length probs
                   then Inr \<lparr>inds = filter (\<lambda>k. ages ! i \<le> p_age (people ! k) \<and>
                                                \<not> p_vaccinated (people ! k)) [0..<length people],
                             vals = replicate
                                      (length (filter (\<lambda>k. ages ! i \<le> p_age (people ! k) \<and>
                                                 \<not> p_vaccinated (people ! k)) [0..<length people]))
                                      (probs ! i)\<rparr>
                   else Inl IndexError))"
proof -
  from get_ind_latest [OF assms] obtain i where
    i: "get_ind_of_min_value list time = Inr i" "i < length list" "list ! i \<le> time"
       "\<forall>j. i < j \<and> j < length list \<longrightarrow> time < list ! j" by blast
  then show ?thesis
    by (auto simp: vacc_subtarg_def and_then_def py_index_def findinds_people Let_def
                   map_replicate_const)
qed

theorem get_ind_of_min_value_latest_witness:
  "(\<exists>t\<in>set [0, 10, 20 :: int]. t \<le> 15) \<and>
   get_ind_of_min_value [0, 10, 20] 15 = Inr 1 \<and>
   (\<exists>i. get_ind_of_min_value [0, 10, 20] 15 = Inr i \<and> [0, 10, 20 :: int] ! i \<le> 15 \<and>
        vacc_subtarg \<lparr>vx_days = [0, 10, 20], vx_age = [75, 65, 50], vx_prob = [1/100, 1/50, 1/25],
                      vx_t = 15,
                      vx_people = [\<lparr>p_age = 80, p_vaccinated = False\<rparr>,
                                   \<lparr>p_age = 70, p_vaccinated = True\<rparr>,
                                   \<lparr>p_age = 66, p_vaccinated = False\<rparr>,
                                   \<lparr>p_age = 30, p_vaccinated = False\<rparr>]\<rparr>
          = Inr \<lparr>inds = [0, 2], vals = [1/50, 1/50]\<rparr>)"
proof -
  have h: "\<exists>t\<in>set [0, 10, 20 :: int]. t \<le> 15" by simp
  have v: "get_ind_of_min_value [0, 10, 20] 15 = Inr 1"
    by (simp add: get_ind_of_min_value_def)
  from get_ind_of_min_value_latest [OF h] obtain i where
    i: "get_ind_of_min_value [0, 10, 20] 15 = Inr i" "[0, 10, 20 :: int] ! i \<le> 15"
       "\<forall>ages probs people.
          vacc_subtarg \<lparr>vx_days = [0, 10, 20], vx_age = ages, vx_prob = probs, vx_t = 15,
                        vx_people = people\<rparr> =
            (if i < length ages \<and> i < length probs
             then Inr \<lparr>inds = filter (\<lambda>k. ages ! i \<le> p_age (people ! k) \<and>
                                          \<not> p_vaccinated (people ! k)) [0..<length people],
                       vals = replicate
                                (length (filter (\<lambda>k. ages ! i \<le> p_age (people ! k) \<and>
                                           \<not> p_vaccinated (people ! k)) [0..<length people]))
                                (probs ! i)\<rparr>
             else Inl IndexError)"
    by blast
  from i(1) v have i1: "i = 1" by simp
  have up: "[0..<4] = [0, 1, 2, 3]" by (simp add: upt_rec)
  have "vacc_subtarg \<lparr>vx_days = [0, 10, 20], vx_age = [75, 65, 50], vx_prob = [1/100, 1/50, 1/25],
                      vx_t = 15,
                      vx_people = [\<lparr>p_age = 80, p_vaccinated = False\<rparr>,
                                   \<lparr>p_age = 70, p_vaccinated = True\<rparr>,
                                   \<lparr>p_age = 66, p_vaccinated = False\<rparr>,
                                   \<lparr>p_age = 30, p_vaccinated = False\<rparr>]\<rparr>
          = Inr \<lparr>inds = [0, 2], vals = [1/50, 1/50]\<rparr>"
    by (simp add: i(3) i1 up numeral_2_eq_2 numeral_3_eq_3)
  with h v i show ?thesis by blast
qed

text \<open>
  C2. When the time is strictly smaller than every threshold of the list (in particular
  when the list is empty), \<open>get_ind_of_min_value\<close> raises \<open>ValueError\<close> with the message
  "<time> is not within the list of times", which starts with the decimal rendering of
  the time; in every other case it returns an index.
\<close>

theorem get_ind_of_min_value_raises:
  "((\<forall>t\<in>set list. time < t) \<longrightarrow>
      get_ind_of_min_value list time =
        Inl (ValueError (str_int time @ '' is not within the list of times''))) \<and>
   (\<not> (\<forall>t\<in>set list. time < t) \<longrightarrow> (\<exists>i. get_ind_of_min_value list time = Inr i))"
proof (intro conjI impI)
  assume "\<forall>t\<in>set list. time < t"
  then have "scan_places list time 0 None = None"
    by (simp add: scan_places_None)
  then show "get_ind_of_min_value list time =
        Inl (ValueError (str_int time @ '' is not within the list of times''))"
    by (simp add: get_ind_of_min_value_def)
next
  assume "\<not> (\<forall>t\<in>set list. time < t)"
  then have "scan_places list time 0 None \<noteq> None"
    by (simp add: scan_places_None)
  then show "\<exists>i. get_ind_of_min_value list time = Inr i"
    by (auto simp: get_ind_of_min_value_def)
qed

theorem get_ind_of_min_value_raises_witness:
  "get_ind_of_min_value [5, 3, 8] (-2) = Inl (ValueError ''-2 is not within the list of times'') \<and>
   (\<exists>i. get_ind_of_min_value [5, 3, 8] 4 = Inr i)"
proof -
  have h1: "\<forall>t\<in>set [5, 3, 8 :: int]. -2 < t" by simp
  have h2: "\<not> (\<forall>t\<in>set [5, 3, 8 :: int]. 4 < t)" by simp
  have s: "str_int (-2) = ''-2''" by (simp add: str_int_def)
  from get_ind_of_min_value_raises [of "[5, 3, 8]" "-2"] h1 s
  have a: "get_ind_of_min_value [5, 3, 8] (-2) = Inl (ValueError ''-2 is not within the list of times'')"
    by simp
  from get_ind_of_min_value_raises [of "[5, 3, 8]" 4] h2
  have b: "\<exists>i. get_ind_of_min_value [5, 3, 8] 4 = Inr i" by blast
  from a b show ?thesis by blast
qed


section \<open>Properties of the plot category and the panels\<close>


text \<open>
  C3 (as amended). When no panels are supplied (\<open>to_plot\<close> is \<open>None\<close>), every value of
  \<open>which\<close> other than \<open>sim\<close> and \<open>scens\<close> makes \<open>handle_to_plot\<close> raise
  \<open>NotImplementedError\<close>, with a message that quotes the value; this holds for every
  \<open>n_cols\<close>, since the check comes before the division.
\<close>

theorem handle_to_plot_unrecognized_which:
  "which \<noteq> ''sim'' \<and> which \<noteq> ''scens'' \<Longrightarrow>
     handle_to_plot cvd which None n_cols = Inl (NotImplementedError (which_errormsg which))"
  by (simp add: handle_to_plot_def and_then_def)

theorem handle_to_plot_unrecognized_which_witness:
  "handle_to_plot example_cvd ''other'' None 1 =
     Inl (NotImplementedError (which_errormsg ''other'')) \<and>
   which_errormsg ''other'' =
     dquote @ ''which'' @ dquote @ '' must be '' @ dquote @ ''sim'' @ dquote @ '' or '' @
     dquote @ ''scens'' @ dquote @ '', not '' @ dquote @ ''other'' @ dquote"
  using handle_to_plot_unrecognized_which [of "''other''" example_cvd 1]
  by (simp add: which_errormsg_def)

text \<open>
  The claim as stated, for every call, fails: with panels supplied an unrecognised
  \<open>which\<close> is never looked at, and the call returns.
\<close>

theorem handle_to_plot_unrecognized_which_counterexample:
  "''other'' \<noteq> ''sim'' \<and> ''other'' \<noteq> ''scens'' \<and>
   handle_to_plot example_cvd ''other'' (Some [(''Panel'', [''new_infections''])]) 1 =
     Inr ([(''Panel'', [''new_infections''])], 1)"
  by (simp add: handle_to_plot_def and_then_def py_truediv_def)




section \<open>Properties of the transmission tree plot\<close>

text \<open>
  C4. \<open>plot_transtree\<close> raises \<open>ValueError\<close> exactly when the receiver's \<open>detailed\<close>
  attribute is \<open>None\<close>, and the message then tells the caller to run
  \<open>sim.people.make_detailed_transtree()\<close> first.
\<close>

theorem plot_transtree_precondition:
  "plot_transtree self = Inl (ValueError msg) \<longleftrightarrow>
     detailed self = None \<and>
     msg = ''Please run sim.people.make_detailed_transtree() before calling plotting''"
  by (auto simp: plot_transtree_def split: option.splits)

section \<open>Properties of the legend arguments\<close>

text \<open>
  C9. The dictionary \<open>legend_args\<close> is the same after \<open>title_grid_legend\<close> as before it.
  A \<open>show_legend\<close> entry is taken out for the call that draws the legend (when its value
  is true, the legend is drawn with the dictionary without that entry) and is back, with
  its value, when the function returns.
\<close>

theorem title_grid_legend_restores:
  "fst (title_grid_legend ax title grid commaticks setylim legend_args show_legend w) =
     legend_args \<and>
   (\<forall>v. legend_args ''show_legend'' = Some v \<and> truthy v \<longrightarrow>
      Legend ax (legend_args(''show_legend'' := None)) \<in>
        set (calls (snd (title_grid_legend ax title grid commaticks setylim legend_args
                           show_legend w))))"
  by (auto simp: title_grid_legend_def log_call_def Let_def split: option.splits)

theorem title_grid_legend_restores_witness:
  "fst (title_grid_legend (Axes 0 ''ax1'') ''Total counts'' False True True
          [''loc'' \<mapsto> PyStr ''best'', ''show_legend'' \<mapsto> PyBool True] (PyBool False)
          example_world) =
     [''loc'' \<mapsto> PyStr ''best'', ''show_legend'' \<mapsto> PyBool True] \<and>
   Legend (Axes 0 ''ax1'')
     ([''loc'' \<mapsto> PyStr ''best'', ''show_legend'' \<mapsto> PyBool True](''show_legend'' := None)) \<in>
     set (calls (snd (title_grid_legend (Axes 0 ''ax1'') ''Total counts'' False True True
                        [''loc'' \<mapsto> PyStr ''best'', ''show_legend'' \<mapsto> PyBool True]
                        (PyBool False) example_world)))"
  using title_grid_legend_restores
          [of "Axes 0 ''ax1''" "''Total counts''" False True True
              "[''loc'' \<mapsto> PyStr ''best'', ''show_legend'' \<mapsto> PyBool True]" "PyBool False"
              example_world]
  by simp

section \<open>Properties of the Plotly intervention markers\<close>

lemma shapes_mark_days:
  "pf_shapes (fold (mark_day sim) ds fig) =
     pf_shapes fig @ map (\<lambda>d. Line_shape d d) (filter (\<lambda>d. 0 < d \<and> d < sim_n_days sim) ds)"
  by (induction ds arbitrary: fig) (auto simp: mark_day_def)

lemma traces_mark_days: "pf_traces (fold (mark_day sim) ds fig) = pf_traces fig"
  by (induction ds arbitrary: fig) (auto simp: mark_day_def)

lemma shapes_fold_sim:
  "pf_shapes (fold (\<lambda>interv fig. case days interv of None \<Rightarrow> fig
                                  | Some interv_days \<Rightarrow> fold (mark_day sim) interv_days fig) is fig) =
     pf_shapes fig @
     concat (map (\<lambda>interv. case days interv of None \<Rightarrow> []
                | Some ds \<Rightarrow> map (\<lambda>d. Line_shape d d) (filter (\<lambda>d. 0 < d \<and> d < sim_n_days sim) ds)) is)"
  by (induction "is" arbitrary: fig) (auto simp: shapes_mark_days split: option.splits)

lemma shapes_fold_people:
  "pf_shapes (fold (\<lambda>interv fig. case days interv of None \<Rightarrow> fig
                                  | Some interv_days \<Rightarrow>
                       if do_plot interv then fold (mark_day sim) interv_days fig else fig) is fig) =
     pf_shapes fig @
     concat (map (\<lambda>interv. case days interv of None \<Rightarrow> []
                | Some ds \<Rightarrow> if do_plot interv then map (\<lambda>d. Line_shape d d) (filter (\<lambda>d. 0 < d \<and> d < sim_n_days sim) ds) else []) is)"
  by (induction "is" arbitrary: fig) (auto simp: shapes_mark_days split: option.splits)

lemma shapes_plotly_sim_interventions:
  "set (pf_shapes (plotly_sim_interventions sim fig)) =
     set (pf_shapes fig) \<union>
     {Line_shape d d | d. \<exists>interv\<in>set (sim_interventions sim). \<exists>ds. days interv = Some ds \<and>
         d \<in> set ds \<and> 0 < d \<and> d < sim_n_days sim}"
  unfolding plotly_sim_interventions_def
  by (cases "sim_interventions sim = []")
     (auto simp: shapes_fold_sim split: option.splits, force+)

lemma shapes_plotly_people_interventions:
  "set (pf_shapes (plotly_people_interventions sim fig)) =
     set (pf_shapes fig) \<union>
     {Line_shape d d | d. \<exists>interv\<in>set (sim_interventions sim). \<exists>ds. days interv = Some ds \<and>
         do_plot interv \<and> d \<in> set ds \<and> 0 < d \<and> d < sim_n_days sim}"
  unfolding plotly_people_interventions_def
  by (cases "sim_interventions sim = []")
     (auto simp: shapes_fold_people split: option.splits if_splits, force+)

lemma shapes_plotly_sim_keys:
  "plotly_sim_keys sim keys fig = Inr fig' \<Longrightarrow> pf_shapes fig' = pf_shapes fig"
  by (induction keys arbitrary: fig)
     (auto simp: and_then_def add_trace_def Let_def split: sum.splits option.splits)

lemma shapes_plotly_sim_panels:
  "plotly_sim_panels sim panels plots = Inr figs \<Longrightarrow>
   \<forall>f\<in>set plots. set (pf_shapes f) = M \<Longrightarrow>
   M = {Line_shape d d | d. \<exists>interv\<in>set (sim_interventions sim). \<exists>ds. days interv = Some ds \<and>
         d \<in> set ds \<and> 0 < d \<and> d < sim_n_days sim} \<Longrightarrow>
   \<forall>f\<in>set figs. set (pf_shapes f) = M"
proof (induction panels arbitrary: plots)
  case Nil
  then show ?case by simp
next
  case (Cons panel panels)
  obtain title keylabels where panel: "panel = (title, keylabels)" by (cases panel)
  from Cons.prems(1) panel obtain fig where
    fig: "plotly_sim_keys sim keylabels go_Figure = Inr fig" and
    rest: "plotly_sim_panels sim panels
             (plots @ [(plotly_sim_interventions sim fig)\<lparr>pf_title := Some title, pf_yaxis_title := Some ''Count''\<rparr>]) = Inr figs"
    by (auto simp: and_then_def Let_def split: sum.splits)
  from shapes_plotly_sim_keys [OF fig] have "pf_shapes fig = []" by (simp add: go_Figure_def)
  then have "set (pf_shapes (plotly_sim_interventions sim fig)) = M"
    using Cons.prems(3) by (simp add: shapes_plotly_sim_interventions)
  with Cons.prems(2) have
    "\<forall>f\<in>set (plots @ [(plotly_sim_interventions sim fig)\<lparr>pf_title := Some title, pf_yaxis_title := Some ''Count''\<rparr>]). set (pf_shapes f) = M"
    by simp
  from Cons.IH [OF rest this Cons.prems(3)] show ?case .
qed

lemma shapes_plotly_people_states:
  "plotly_people_states sim z sts fig = Inr fig' \<Longrightarrow> pf_shapes fig' = pf_shapes fig"
  by (induction sts arbitrary: fig)
     (auto simp: and_then_def add_trace_def Let_def split: sum.splits)

lemma plotly_people_shapes:
  assumes "plotly_people sim do_show = Inr fig"
  shows "set (pf_shapes fig) = {Line_shape d d | d. \<exists>interv\<in>set (sim_interventions sim). \<exists>ds. days interv = Some ds \<and>
         do_plot interv \<and> d \<in> set ds \<and> 0 < d \<and> d < sim_n_days sim}"
proof -
  from assms obtain fig0 where
    f0: "plotly_people_states sim (fst (get_individual_states sim)) (rev (snd (get_individual_states sim))) go_Figure = Inr fig0"
    and fig: "pf_shapes fig = pf_shapes (plotly_people_interventions sim fig0)"
    by (auto simp: plotly_people_def and_then_def Let_def split: sum.splits prod.splits if_splits)
  from shapes_plotly_people_states [OF f0] have "pf_shapes fig0 = []" by (simp add: go_Figure_def)
  with fig show ?thesis by (simp add: shapes_plotly_people_interventions)
qed

lemma mark_day_do_plot: "mark_day (sim\<lparr>sim_interventions := x\<rparr>) = mark_day sim"
  by (intro ext) (simp add: mark_day_def)

lemma plotly_sim_keys_do_plot:
  "plotly_sim_keys (sim\<lparr>sim_interventions := x\<rparr>) keys = plotly_sim_keys sim keys"
proof (induction keys)
  case Nil
  show ?case by (rule ext) simp
next
  case (Cons key keys)
  show ?case by (rule ext) (simp add: Cons.IH)
qed

lemma plotly_sim_interventions_do_plot:
  "plotly_sim_interventions (sim\<lparr>sim_interventions := map (do_plot_update g) (sim_interventions sim)\<rparr>) fig
   = plotly_sim_interventions sim fig"
  by (simp add: plotly_sim_interventions_def fold_map comp_def mark_day_do_plot cong: option.case_cong)

lemma plotly_sim_panels_do_plot:
  "plotly_sim_panels (sim\<lparr>sim_interventions := map (do_plot_update g) (sim_interventions sim)\<rparr>) panels plots
   = plotly_sim_panels sim panels plots"
proof (induction panels arbitrary: plots)
  case Nil
  show ?case by simp
next
  case (Cons panel panels)
  obtain title keylabels where panel: "panel = (title, keylabels)" by (cases panel)
  show ?case unfolding panel
    by (simp add: plotly_sim_keys_do_plot plotly_sim_interventions_do_plot Cons.IH Let_def)
qed

lemma plotly_people_states_returns:
  "sim_results sim ''date'' \<noteq> None \<Longrightarrow> \<exists>fig'. plotly_people_states sim z sts fig = Inr fig'"
  by (induction sts arbitrary: fig) (auto simp: and_then_def py_getitem_def Let_def)

lemma plotly_people_returns:
  "sim_results sim ''date'' \<noteq> None \<Longrightarrow> \<exists>fig. plotly_people sim do_show = Inr fig"
proof -
  assume d: "sim_results sim ''date'' \<noteq> None"
  obtain z sts where g: "get_individual_states sim = (z, sts)" by (cases "get_individual_states sim")
  from plotly_people_states_returns [OF d] obtain fig0 where
    "plotly_people_states sim z (rev sts) go_Figure = Inr fig0" by blast
  with g show ?thesis by (simp add: plotly_people_def and_then_def Let_def)
qed

lemma plotly_sim_keys_returns:
  assumes "\<forall>key\<in>set keys. \<exists>r. sim_results sim key = Some (Result r)"
      and "sim_results sim ''date'' \<noteq> None"
      and "sim_data sim = None"
  shows "\<exists>fig'. plotly_sim_keys sim keys fig = Inr fig'"
  using assms
  by (induction keys arbitrary: fig) (auto simp: and_then_def py_getitem_def get_attr_def Let_def)

lemma plotly_sim_panels_returns:
  assumes "\<forall>key\<in>set (concat (map snd panels)). \<exists>r. sim_results sim key = Some (Result r)"
      and "sim_results sim ''date'' \<noteq> None"
      and "sim_data sim = None"
  shows "\<exists>figs. plotly_sim_panels sim panels plots = Inr figs \<and> length figs = length plots + length panels"
  using assms(1)
proof (induction panels arbitrary: plots)
  case Nil
  show ?case by simp
next
  case (Cons panel panels)
  obtain title keylabels where panel: "panel = (title, keylabels)" by (cases panel)
  from Cons.prems panel have k: "\<forall>key\<in>set keylabels. \<exists>r. sim_results sim key = Some (Result r)"
    and r: "\<forall>key\<in>set (concat (map snd panels)). \<exists>r. sim_results sim key = Some (Result r)"
    by auto
  from plotly_sim_keys_returns [OF k assms(2) assms(3)] obtain fig where
    fig: "plotly_sim_keys sim keylabels go_Figure = Inr fig" by blast
  from Cons.IH [OF r, of "plots @ [(plotly_sim_interventions sim fig)\<lparr>pf_title := Some title, pf_yaxis_title := Some ''Count''\<rparr>]"]
  show ?case unfolding panel using fig by (auto simp: and_then_def Let_def)
qed

text \<open>
  C10. In every figure \<open>plotly_sim\<close> returns, the vertical markers are exactly the lines
  at the days \<open>d\<close> of the interventions that have a \<open>days\<close> attribute with
  \<open>0 < d < n_days\<close>; in the figure \<open>plotly_people\<close> returns they are exactly those of
  the interventions whose \<open>do_plot\<close> flag is set as well. Changing the \<open>do_plot\<close> flags
  does not change what \<open>plotly_sim\<close> returns. Both functions do return: \<open>plotly_sim\<close> when
  every key of the default panels is a result, the dates are in the results and there are
  no data; \<open>plotly_people\<close> when the dates are in the results.
\<close>

theorem plotly_intervention_markers:
  "(\<forall>figs. plotly_sim cvd sim = Inr figs \<longrightarrow>
      (\<forall>fig\<in>set figs.
         set (pf_shapes fig) =
           {Line_shape d d | d. \<exists>interv\<in>set (sim_interventions sim). \<exists>ds.
              days interv = Some ds \<and> d \<in> set ds \<and> 0 < d \<and> d < sim_n_days sim})) \<and>
   (\<forall>fig. plotly_people sim do_show = Inr fig \<longrightarrow>
      set (pf_shapes fig) =
        {Line_shape d d | d. \<exists>interv\<in>set (sim_interventions sim). \<exists>ds.
           days interv = Some ds \<and> do_plot interv \<and> d \<in> set ds \<and> 0 < d \<and> d < sim_n_days sim}) \<and>
   plotly_sim cvd (sim\<lparr>sim_interventions := map (do_plot_update g) (sim_interventions sim)\<rparr>) =
     plotly_sim cvd sim \<and>
   ((\<forall>key\<in>set (concat (map snd (get_sim_plots cvd))). \<exists>r. sim_results sim key = Some (Result r)) \<and>
    sim_results sim ''date'' \<noteq> None \<and> sim_data sim = None \<longrightarrow>
      (\<exists>figs. plotly_sim cvd sim = Inr figs \<and> length figs = length (get_sim_plots cvd))) \<and>
   (sim_results sim ''date'' \<noteq> None \<longrightarrow> (\<exists>fig. plotly_people sim do_show = Inr fig))"
proof (intro conjI allI impI)
  fix figs assume "plotly_sim cvd sim = Inr figs"
  then have "plotly_sim_panels sim (get_sim_plots cvd) [] = Inr figs"
    by (simp add: plotly_sim_def)
  from shapes_plotly_sim_panels [OF this _ refl]
  show "\<forall>fig\<in>set figs. set (pf_shapes fig) =
           {Line_shape d d | d. \<exists>interv\<in>set (sim_interventions sim). \<exists>ds.
              days interv = Some ds \<and> d \<in> set ds \<and> 0 < d \<and> d < sim_n_days sim}"
    by simp
next
  fix fig assume "plotly_people sim do_show = Inr fig"
  then show "set (pf_shapes fig) =
        {Line_shape d d | d. \<exists>interv\<in>set (sim_interventions sim). \<exists>ds.
           days interv = Some ds \<and> do_plot interv \<and> d \<in> set ds \<and> 0 < d \<and> d < sim_n_days sim}"
    by (rule plotly_people_shapes)
next
  show "plotly_sim cvd (sim\<lparr>sim_interventions := map (do_plot_update g) (sim_interventions sim)\<rparr>) =
     plotly_sim cvd sim"
    by (simp add: plotly_sim_def plotly_sim_panels_do_plot)
next
  assume a: "(\<forall>key\<in>set (concat (map snd (get_sim_plots cvd))). \<exists>r. sim_results sim key = Some (Result r)) \<and>
    sim_results sim ''date'' \<noteq> None \<and> sim_data sim = None"
  then have 1: "\<forall>key\<in>set (concat (map snd (get_sim_plots cvd))). \<exists>r. sim_results sim key = Some (Result r)"
    and 2: "sim_results sim ''date'' \<noteq> None" and 3: "sim_data sim = None" by blast+
  from plotly_sim_panels_returns [OF 1 2 3, of "[]"]
  show "\<exists>figs. plotly_sim cvd sim = Inr figs \<and> length figs = length (get_sim_plots cvd)"
    by (simp add: plotly_sim_def)
next
  assume "sim_results sim ''date'' \<noteq> None"
  then show "\<exists>fig. plotly_people sim do_show = Inr fig" by (rule plotly_people_returns)
qed

theorem plotly_intervention_markers_witness:
  "(\<exists>fig. plotly_sim example_cvd example_sim = Inr [fig] \<and>
          pf_shapes fig = [Line_shape 10 10, Line_shape 20 20] \<and>
          set (pf_shapes fig) =
           {Line_shape d d | d. \<exists>interv\<in>set (sim_interventions example_sim). \<exists>ds.
              days interv = Some ds \<and> d \<in> set ds \<and> 0 < d \<and> d < sim_n_days example_sim}) \<and>
   (\<exists>fig. plotly_people example_sim False = Inr fig \<and>
          pf_shapes fig = [Line_shape 20 20] \<and>
          set (pf_shapes fig) =
           {Line_shape d d | d. \<exists>interv\<in>set (sim_interventions example_sim). \<exists>ds.
              days interv = Some ds \<and> do_plot interv \<and> d \<in> set ds \<and> 0 < d \<and>
              d < sim_n_days example_sim})"
proof -
  have s: "map_sum id (map pf_shapes) (plotly_sim example_cvd example_sim) =
             Inr [[Line_shape 10 10, Line_shape 20 20]]"
    by (simp add: example_sim_def example_cvd_def plotly_sim_def and_then_def py_getitem_def
                  get_attr_def plotly_sim_interventions_def mark_day_def add_trace_def
                  go_Figure_def Let_def)
  then obtain fig where fig: "plotly_sim example_cvd example_sim = Inr [fig]"
      "pf_shapes fig = [Line_shape 10 10, Line_shape 20 20]"
    by (cases "plotly_sim example_cvd example_sim") auto
  have p: "map_sum id pf_shapes (plotly_people example_sim False) = Inr [Line_shape 20 20]"
    by (simp add: example_sim_def plotly_people_def get_individual_states_def and_then_def
                  py_getitem_def states_def plotly_people_interventions_def mark_day_def
                  add_trace_def go_Figure_def Let_def)
  then obtain pfig where pfig: "plotly_people example_sim False = Inr pfig"
      "pf_shapes pfig = [Line_shape 20 20]"
    by (cases "plotly_people example_sim False") auto
  note t = plotly_intervention_markers [of example_cvd example_sim False id]
  from t fig(1) have 1: "set (pf_shapes fig) =
           {Line_shape d d | d. \<exists>interv\<in>set (sim_interventions example_sim). \<exists>ds.
              days interv = Some ds \<and> d \<in> set ds \<and> 0 < d \<and> d < sim_n_days example_sim}"
    by simp
  from t pfig(1) have 2: "set (pf_shapes pfig) =
           {Line_shape d d | d. \<exists>interv\<in>set (sim_interventions example_sim). \<exists>ds.
              days interv = Some ds \<and> do_plot interv \<and> d \<in> set ds \<and> 0 < d \<and>
              d < sim_n_days example_sim}"
    by simp
  from fig pfig 1 2 show ?thesis by blast
qed


section \<open>The library state across the plotting helpers\<close>

lemma saved_paths_log_call [simp]:
  "saved_paths (log_call c w) = saved_paths w @ saved_path c"
  by (simp add: saved_paths_def log_call_def)

lemma figures_log_call [simp]: "figures (log_call c w) = figures w"
  and open_figs_log_call [simp]: "open_figs (log_call c w) = open_figs w"
  by (simp_all add: log_call_def)

lemma saved_paths_upd [simp]:
  "saved_paths (w\<lparr>figures := fs\<rparr>) = saved_paths w"
  "saved_paths (w\<lparr>open_figs := os\<rparr>) = saved_paths w"
  "saved_paths (w\<lparr>ylim := yl\<rparr>) = saved_paths w"
  by (simp_all add: saved_paths_def)



lemma reset_ticks_frame [simp]:
  "saved_paths (reset_ticks ax sim interval as_dates w) = saved_paths w"
  "figures (reset_ticks ax sim interval as_dates w) = figures w"
  "open_figs (reset_ticks ax sim interval as_dates w) = open_figs w"
  by (auto simp: reset_ticks_def Let_def split: option.splits prod.splits)

lemma fold_log_frame:
  "saved_paths (fold (\<lambda>i. log_call (Intervention_plot i ax)) is w) = saved_paths w \<and>
   figures (fold (\<lambda>i. log_call (Intervention_plot i ax)) is w) = figures w \<and>
   open_figs (fold (\<lambda>i. log_call (Intervention_plot i ax)) is w) = open_figs w"
  by (induction "is" arbitrary: w) auto

lemma plot_interventions_frame [simp]:
  "saved_paths (plot_interventions sim ax w) = saved_paths w"
  "figures (plot_interventions sim ax w) = figures w"
  "open_figs (plot_interventions sim ax w) = open_figs w"
  by (simp_all add: plot_interventions_def fold_log_frame)

lemma title_grid_legend_frame [simp]:
  "saved_paths (snd (title_grid_legend ax title grid commaticks setylim legend_args show_legend w)) = saved_paths w"
  "figures (snd (title_grid_legend ax title grid commaticks setylim legend_args show_legend w)) = figures w"
  "open_figs (snd (title_grid_legend ax title grid commaticks setylim legend_args show_legend w)) = open_figs w"
  by (auto simp: title_grid_legend_def Let_def split: option.splits)


















section \<open>The loops of plot\_sim\<close>

lemma title_grid_legend_fst:
  "fst (title_grid_legend ax title grid commaticks setylim legend_args show_legend w) = legend_args"
  by (auto simp: title_grid_legend_def Let_def split: option.splits)

lemma title_grid_legend_args:
  "(case title_grid_legend ax title grid commaticks setylim (args_legend args) show_legend w of
      (legend, w') \<Rightarrow> f (args\<lparr>args_legend := legend\<rparr>) w') =
   f args (snd (title_grid_legend ax title grid commaticks setylim (args_legend args) show_legend w))"
proof -
  obtain legend w' where t: "title_grid_legend ax title grid commaticks setylim (args_legend args) show_legend w = (legend, w')"
    by (cases "title_grid_legend ax title grid commaticks setylim (args_legend args) show_legend w")
  with title_grid_legend_fst [of ax title grid commaticks setylim "args_legend args" show_legend w]
  have "legend = args_legend args" by simp
  with t show ?thesis by simp
qed













section \<open>The loops of plot\_scens\<close>











section \<open>Properties of the core plotting functions\<close>









end
